theory Spec2Isabelle
  imports Complex_Main "HOL-Library.AList" "HOL-Library.Sublist"
begin

section \<open>Python values used by the repository\<close>

text \<open>
  Strings are lists of 8-bit characters, read as the code points 0..255. Python numbers
  (\<open>int\<close> and \<open>float\<close>) are embedded in the rationals: integer arithmetic is exact, and the
  rounding, infinities and NaN of IEEE doubles are not modelled. A Python \<open>dict\<close> is an
  association list kept in insertion order: \<open>d[k] = v\<close> is \<open>AList.update k v d\<close>,
  \<open>k in d\<close> is \<open>map_of d k \<noteq> None\<close> and \<open>not d\<close> is \<open>d = []\<close>.
\<close>

type_synonym pynum = rat

datatype py_error =
    NameError string
  | ValueError string
  | OSError string
  | RuntimeError string


subsection \<open>String methods\<close>

text \<open>\<open>str.isspace\<close> on one character, for code points below 256.\<close>

definition is_space :: "char \<Rightarrow> bool" where
  "is_space c \<longleftrightarrow> of_char c \<in> {9, 10, 11, 12, 13, 28, 29, 30, 31, 32, 133, 160 :: nat}"

text \<open>\<open>s.strip()\<close>: whitespace removed at both ends.\<close>

definition py_strip :: "string \<Rightarrow> string" where
  "py_strip s = rev (dropWhile is_space (rev (dropWhile is_space s)))"

text \<open>\<open>s.split()\<close>: the maximal runs of non-whitespace characters, in order.\<close>

fun split_acc :: "string \<Rightarrow> string \<Rightarrow> string list" where
  "split_acc cur [] = (if cur = [] then [] else [cur])"
| "split_acc cur (c # cs) =
     (if is_space c then (if cur = [] then split_acc [] cs else cur # split_acc [] cs)
      else split_acc (cur @ [c]) cs)"

definition py_split :: "string \<Rightarrow> string list" where
  "py_split s = split_acc [] s"

text \<open>\<open>sep.join(xs)\<close>.\<close>

fun py_join :: "string \<Rightarrow> string list \<Rightarrow> string" where
  "py_join sep [] = []"
| "py_join sep [x] = x"
| "py_join sep (x # y # ys) = x @ sep @ py_join sep (y # ys)"

text \<open>\<open>s.lower()\<close> on code points below 256: A-Z and the Latin-1 capitals.\<close>

definition lower_char :: "char \<Rightarrow> char" where
  "lower_char c =
     (let n = (of_char c :: nat) in
      if (65 \<le> n \<and> n \<le> 90) \<or> (192 \<le> n \<and> n \<le> 222 \<and> n \<noteq> 215) then char_of (n + 32) else c)"

definition py_lower :: "string \<Rightarrow> string" where
  "py_lower s = map lower_char s"

text \<open>\<open>sub in s\<close> on strings: \<open>sub\<close> occurs in \<open>s\<close> as a contiguous block.\<close>

fun contains :: "string \<Rightarrow> string \<Rightarrow> bool" where
  "contains sub [] = (sub = [])"
| "contains sub (c # cs) = (prefix sub (c # cs) \<or> contains sub cs)"

text \<open>\<open>any(word in s for word in words)\<close>.\<close>

definition any_in :: "string list \<Rightarrow> string \<Rightarrow> bool" where
  "any_in words s = list_ex (\<lambda>word. contains word s) words"

section \<open>utils/config.py\<close>

definition ENGINEERING_ROLES :: "(string \<times> pynum) list" where
  "ENGINEERING_ROLES =
     [(''Frontend Engineer'', 10),
      (''Backend Engineer'', 7),
      (''Database Engineer'', 12),
      (''Cloud Engineer'', 15),
      (''Testing Engineer'', 7)]"

section \<open>tools/cost\_calculator.py\<close>

subsection \<open>load\_hourly\_rates\<close>

text \<open>
  The state of the file at \<open>PAYS_PATH\<close>: absent; present but \<open>open\<close> raises; or readable,
  with the lines the file iterator yields (each with its line terminator, if any).
\<close>

datatype file_state = Missing | Unreadable | Readable "string list"

text \<open>
  The body of \<open>for line in f\<close>. \<open>float(parts[-1])\<close> is the parameter \<open>pf\<close> (\<open>None\<close> where
  \<open>float\<close> raises \<open>ValueError\<close>). The \<open>try\<close> encloses the whole loop, so a raise leaves the
  loop with the dictionary as filled so far; the loop returns that dictionary and the
  exception, if any.
\<close>

fun read_rates ::
  "(string \<Rightarrow> pynum option) \<Rightarrow> string list \<Rightarrow> (string \<times> pynum) list
     \<Rightarrow> (string \<times> pynum) list \<times> py_error option" where
  "read_rates pf [] rates = (rates, None)"
| "read_rates pf (l # ls) rates =
     (let line = py_strip l in
      if line \<noteq> [] then
        (let parts = py_split line in
         if length parts \<ge> 2 then
           (let role = py_join '' '' (butlast parts) in
            case pf (last parts) of
              None \<Rightarrow> (rates, Some (ValueError (last parts)))
            | Some rate \<Rightarrow> read_rates pf ls (AList.update role rate rates))
         else read_rates pf ls rates)
      else read_rates pf ls rates)"

text \<open>\<open>PAYS_PATH.exists()\<close> and \<open>open(PAYS_PATH, 'r')\<close>.\<close>

fun path_exists :: "file_state \<Rightarrow> bool" where
  "path_exists Missing = False"
| "path_exists Unreadable = True"
| "path_exists (Readable ls) = True"

fun open_file :: "file_state \<Rightarrow> py_error + string list" where
  "open_file Missing = Inl (OSError ''No such file or directory'')"
| "open_file Unreadable = Inl (OSError ''Permission denied'')"
| "open_file (Readable ls) = Inr ls"

text \<open>
  \<open>rates = {}\<close>; then, if the file exists, the \<open>try\<close> block: an exception of \<open>open\<close> or of
  the loop is caught by \<open>except Exception\<close>, which only prints, so \<open>rates\<close> keeps what
  the loop had stored. An empty \<open>rates\<close> is replaced by a copy of the default table.
\<close>

definition load_hourly_rates ::
  "(string \<Rightarrow> pynum option) \<Rightarrow> file_state \<Rightarrow> (string \<times> pynum) list" where
  "load_hourly_rates pf fs =
     (let rates =
        (if path_exists fs then
           (case open_file fs of
              Inl e \<Rightarrow> []
            | Inr ls \<Rightarrow> (case read_rates pf ls [] of (rates, raised) \<Rightarrow> rates))
         else [])
      in if rates = [] then ENGINEERING_ROLES else rates)"

subsection \<open>calculate\_task\_cost\<close>

record cost_info =
  error :: "string option"
  role :: string
  hours :: pynum
  rate :: pynum
  total_cost :: pynum

definition calculate_task_cost ::
  "(string \<Rightarrow> pynum option) \<Rightarrow> file_state \<Rightarrow> string \<Rightarrow> pynum \<Rightarrow> cost_info" where
  "calculate_task_cost pf fs r h =
     (let rates = load_hourly_rates pf fs in
      case map_of rates r of
        None \<Rightarrow>
          \<lparr>error = Some (''Role '' @ [CHR 0x27] @ r @ [CHR 0x27] @ '' not found in hourly rates''),
           role = r, hours = h, rate = 0, total_cost = 0\<rparr>
      | Some rt \<Rightarrow>
          \<lparr>error = None, role = r, hours = h, rate = rt, total_cost = rt * h\<rparr>)"

subsection \<open>calculate\_project\_cost\<close>

text \<open>
  A task is a dictionary read with \<open>get\<close>, so either key may be absent. The result is the
  returned dictionary without its \<open>summary\<close> of formatted strings.
\<close>

record task =
  task_role :: "string option"
  task_hours :: "pynum option"

record project_cost =
  total_cost :: pynum
  total_hours :: pynum
  breakdown :: "cost_info list"

text \<open>
  The loop \<open>for task in tasks\<close>. Its first statement is
  \<open>role = tasksummary.get("role", "")\<close>, and the name \<open>tasksummary\<close> is bound nowhere: it is not
  a local of the function, not a global of the module and not a builtin. Evaluating it
  raises \<open>NameError\<close> in the first iteration, before the task is looked at, and nothing
  in the function catches it. The rest of the body
  (\<open>hours = task.get("hours", 0)\<close>, the test \<open>role and hours > 0\<close>, the call of
  \<open>calculate_task_cost\<close> and the accumulation) is never reached.
\<close>

fun project_loop :: "task list \<Rightarrow> project_cost \<Rightarrow> py_error + project_cost" where
  "project_loop [] acc = Inr acc"
| "project_loop (t # ts) acc = Inl (NameError ''tasksummary'')"

definition calculate_project_cost :: "task list \<Rightarrow> py_error + project_cost" where
  "calculate_project_cost tasks =
     project_loop tasks \<lparr>total_cost = 0, total_hours = 0, breakdown = []\<rparr>"

subsection \<open>estimate\_hours\_from\_description\<close>

definition task_estimates :: "(string \<times> (string \<times> pynum) list) list" where
  "task_estimates =
     [(''frontend'', [(''simple'', 8), (''medium'', 16), (''complex'', 32)]),
      (''backend'', [(''simple'', 12), (''medium'', 24), (''complex'', 48)]),
      (''database'', [(''simple'', 16), (''medium'', 32), (''complex'', 64)]),
      (''cloud'', [(''simple'', 20), (''medium'', 40), (''complex'', 80)]),
      (''testing'', [(''simple'', 8), (''medium'', 16), (''complex'', 24)])]"

text \<open>\<open>d.get(k, default)\<close>.\<close>

definition dict_get :: "('k \<times> 'v) list \<Rightarrow> 'k \<Rightarrow> 'v \<Rightarrow> 'v" where
  "dict_get d k dflt = (case map_of d k of None \<Rightarrow> dflt | Some v \<Rightarrow> v)"

text \<open>The local variables \<open>complexity\<close> and \<open>role_type\<close>, as functions of the arguments.\<close>

definition complexity :: "string \<Rightarrow> string" where
  "complexity description =
     (let description_lower = py_lower description in
      if any_in [''simple'', ''basic'', ''quick'', ''minor''] description_lower then ''simple''
      else if any_in [''complex'', ''advanced'', ''sophisticated'', ''comprehensive'']
                description_lower then ''complex''
      else ''medium'')"

definition role_type :: "string \<Rightarrow> string" where
  "role_type r =
     (let role_lower = py_lower r in
      if contains ''frontend'' role_lower then ''frontend''
      else if contains ''backend'' role_lower then ''backend''
      else if contains ''database'' role_lower then ''database''
      else if contains ''cloud'' role_lower then ''cloud''
      else if contains ''test'' role_lower then ''testing''
      else ''backend'')"

definition estimate_hours_from_description :: "string \<Rightarrow> string \<Rightarrow> pynum" where
  "estimate_hours_from_description description r =
     dict_get (dict_get task_estimates (role_type r) []) (complexity description) 16"

section \<open>agents/description\_agent.py: parsing a model reply\<close>

text \<open>
  \<open>s.split(sep)\<close> with a separator: the scan goes left to right and cuts at every
  occurrence that does not overlap an earlier cut; \<open>cur\<close> is the piece being collected.
  The separator is a non-empty literal at the only call (Python raises \<open>ValueError\<close> on an
  empty one).
\<close>

function split_on :: "string \<Rightarrow> string \<Rightarrow> string \<Rightarrow> string list" where
  "split_on sep cur [] = [cur]"
| "split_on sep cur (c # cs) =
     (if sep \<noteq> [] \<and> prefix sep (c # cs)
      then cur # split_on sep [] (drop (length sep) (c # cs))
      else split_on sep (cur @ [c]) cs)"
  by pat_completeness auto
termination
  by (relation "measure (\<lambda>(sep, cur, s). length s)") auto

text \<open>
  \<open>s.replace(old, new)\<close> for a non-empty \<open>old\<close>: every occurrence found by the same left
  to right scan is replaced.
\<close>

function str_replace :: "string \<Rightarrow> string \<Rightarrow> string \<Rightarrow> string" where
  "str_replace old new [] = []"
| "str_replace old new (c # cs) =
     (if old \<noteq> [] \<and> prefix old (c # cs)
      then new @ str_replace old new (drop (length old) (c # cs))
      else c # str_replace old new cs)"
  by pat_completeness auto
termination
  by (relation "measure (\<lambda>(old, new, s). length s)") auto

definition FINANCIAL_MARK :: string where
  "FINANCIAL_MARK = ''FINANCIAL ANALYSIS:''"

definition TECHNICAL_MARK :: string where
  "TECHNICAL_MARK = ''TECHNICAL ANALYSIS:''"

record analysis =
  technical :: string
  financial :: string

text \<open>The method \<open>_parse_model_response\<close>.\<close>

definition parse_model_response :: "string \<Rightarrow> analysis" where
  "parse_model_response response =
     (let parts = split_on FINANCIAL_MARK [] response in
      if length parts \<ge> 2 then
        \<lparr>technical = py_strip (str_replace TECHNICAL_MARK [] (parts ! 0)),
         financial = py_strip (parts ! 1)\<rparr>
      else \<lparr>technical = response, financial = []\<rparr>)"

section \<open>agents/description\_agent.py: generating the reports\<close>



record model_reports =
  technical_report :: string
  financial_report :: string
  analysis :: analysis








section \<open>Word-processor documents\<close>

text \<open>
  What the code reads of a document of the document library: its paragraphs, each with
  the name of its style, its runs (with the tri-state \<open>bold\<close>: set, unset or inherited)
  and its text. The library is taken to keep the text of a paragraph as it was given,
  and a saved document to be read back as it was saved.
\<close>

record run =
  run_text :: string
  bold :: "bool option"

record para =
  style_name :: string
  runs :: "run list"
  para_text :: string


section \<open>utils/config.py and utils/file\_utils.py: reports\<close>






section \<open>tools/document\_extractor.py\<close>

subsection \<open>extract\_questioner\_content\<close>

text \<open>
  The file at \<open>QUESTIONER_PATH\<close>: absent; present but opening it as a document raises
  (with the message of the exception); or a document.
\<close>

datatype doc_file = NoFile | BadFile string | DocFile "para list"

record section_entry =
  title :: string
  questions :: "string list"

text \<open>
  The dictionary \<open>content\<close>; of \<open>metadata\<close> only the key \<open>preamble\<close> is ever set, and it is
  absent until a paragraph before the first section is met.
\<close>

record content =
  sections :: "section_entry list"
  raw_text :: string
  preamble :: "string option"

text \<open>The state of the loop: \<open>content\<close> and the two local variables.\<close>

record scan_state = content +
  current_section :: "string option"
  current_questions :: "string list"

text \<open>
  The test \<open>paragraph.style.name.startswith('Heading') or paragraph.runs and
  paragraph.runs[0].bold\<close>, and the truth value of \<open>current_section\<close>.
\<close>

definition is_section_header :: "para \<Rightarrow> bool" where
  "is_section_header p \<longleftrightarrow>
     prefix ''Heading'' (style_name p) \<or> (runs p \<noteq> [] \<and> bold (hd (runs p)) = Some True)"

fun truthy :: "string option \<Rightarrow> bool" where
  "truthy None = False"
| "truthy (Some t) = (t \<noteq> [])"

definition close_section :: "'a scan_state_scheme \<Rightarrow> 'a scan_state_scheme" where
  "close_section st =
     (case current_section st of
        None \<Rightarrow> st
      | Some t \<Rightarrow>
          if t \<noteq> [] then
            st\<lparr>sections := sections st @ [\<lparr>title = t, questions = current_questions st\<rparr>]\<rparr>
          else st)"

fun scan_paragraphs :: "para list \<Rightarrow> scan_state \<Rightarrow> scan_state" where
  "scan_paragraphs [] st = st"
| "scan_paragraphs (p # ps) st =
     (let t = py_strip (para_text p) in
      if t = [] then scan_paragraphs ps st
      else
        (let st = st\<lparr>raw_text := raw_text st @ t @ [CHR 0x0A]\<rparr> in
         if is_section_header p then
           scan_paragraphs ps
             ((close_section st)\<lparr>current_section := Some t, current_questions := []\<rparr>)
         else if truthy (current_section st) then
           scan_paragraphs ps (st\<lparr>current_questions := current_questions st @ [t]\<rparr>)
         else
           scan_paragraphs ps
             (st\<lparr>preamble :=
                   Some ((case preamble st of None \<Rightarrow> [] | Some pre \<Rightarrow> pre)
                         @ t @ [CHR 0x0A])\<rparr>)))"

definition extract_questioner_content :: "doc_file \<Rightarrow> string + content" where
  "extract_questioner_content f =
     (case f of
        NoFile \<Rightarrow> Inl ''Questioner document not found''
      | BadFile msg \<Rightarrow> Inl (''Error extracting content: '' @ msg)
      | DocFile ps \<Rightarrow>
          (let st = scan_paragraphs ps
                      \<lparr>sections = [], raw_text = [], preamble = None,
                       current_section = None, current_questions = []\<rparr>;
               st = close_section st
           in Inr \<lparr>sections = sections st, raw_text = raw_text st, preamble = preamble st\<rparr>))"

subsection \<open>extract\_project\_requirements\<close>

record requirements =
  project_overview :: string
  technical_requirements :: "string list"
  financial_requirements :: "string list"
  timeline_requirements :: "string list"
  resource_requirements :: "string list"

fun categorize :: "section_entry list \<Rightarrow> requirements \<Rightarrow> requirements" where
  "categorize [] req = req"
| "categorize (s # ss) req =
     (let title_lower = py_lower (title s) in
      if any_in [''overview'', ''description'', ''summary''] title_lower then
        categorize ss (req\<lparr>project_overview := py_join [CHR 0x0A] (questions s)\<rparr>)
      else if any_in [''technical'', ''technology'', ''architecture'', ''system''] title_lower then
        categorize ss (req\<lparr>technical_requirements := technical_requirements req @ questions s\<rparr>)
      else if any_in [''financial'', ''budget'', ''cost'', ''pricing''] title_lower then
        categorize ss (req\<lparr>financial_requirements := financial_requirements req @ questions s\<rparr>)
      else if any_in [''timeline'', ''schedule'', ''deadline'', ''milestone''] title_lower then
        categorize ss (req\<lparr>timeline_requirements := timeline_requirements req @ questions s\<rparr>)
      else if any_in [''resource'', ''team'', ''staff'', ''personnel''] title_lower then
        categorize ss (req\<lparr>resource_requirements := resource_requirements req @ questions s\<rparr>)
      else categorize ss req)"

definition empty_requirements :: requirements where
  "empty_requirements =
     \<lparr>project_overview = [], technical_requirements = [], financial_requirements = [],
      timeline_requirements = [], resource_requirements = []\<rparr>"

definition extract_project_requirements :: "doc_file \<Rightarrow> string + requirements" where
  "extract_project_requirements f =
     (case extract_questioner_content f of
        Inl err \<Rightarrow> Inl err
      | Inr c \<Rightarrow> Inr (categorize (sections c) empty_requirements))"

section \<open>Notions used to state the properties\<close>

subsection \<open>Rate files\<close>

text \<open>
  A stand-in for \<open>float\<close> in the concrete instances: it converts a non-empty string of
  decimal digits to its value and rejects everything else. It agrees with \<open>float\<close> on
  the tokens of those instances (digit strings, and words such as \<open>bar\<close> and
  \<open>Engineer\<close>). The general statements hold for every \<open>pf\<close>.
\<close>

definition is_digit :: "char \<Rightarrow> bool" where
  "is_digit c \<longleftrightarrow> 48 \<le> (of_char c :: nat) \<and> (of_char c :: nat) \<le> 57"

definition digits_float :: "string \<Rightarrow> pynum option" where
  "digits_float s =
     (if s \<noteq> [] \<and> list_all is_digit s
      then Some (of_nat (foldl (\<lambda>n c. 10 * n + (of_char c - 48)) 0 s))
      else None)"








subsection \<open>Project cost\<close>

text \<open>
  The aggregation as the specification words it, the task being read through the loop
  variable: a task with an empty or absent role, with hours that are not positive, or
  with a role missing from the rate table is skipped, and the totals are summed over the
  other tasks.
\<close>

fun project_loop_claimed ::
  "(string \<Rightarrow> pynum option) \<Rightarrow> file_state \<Rightarrow> task list \<Rightarrow> project_cost \<Rightarrow> project_cost" where
  "project_loop_claimed pf fs [] acc = acc"
| "project_loop_claimed pf fs (t # ts) acc =
     (let r = (case task_role t of None \<Rightarrow> [] | Some r \<Rightarrow> r);
          h = (case task_hours t of None \<Rightarrow> 0 | Some h \<Rightarrow> h)
      in if r \<noteq> [] \<and> h > 0 then
           (let info = calculate_task_cost pf fs r h in
            if error info = None then
              project_loop_claimed pf fs ts
                \<lparr>total_cost = total_cost acc + cost_info.total_cost info,
                 total_hours = total_hours acc + h,
                 breakdown = breakdown acc @ [info]\<rparr>
            else project_loop_claimed pf fs ts acc)
         else project_loop_claimed pf fs ts acc)"

definition calculate_project_cost_claimed ::
  "(string \<Rightarrow> pynum option) \<Rightarrow> file_state \<Rightarrow> task list \<Rightarrow> project_cost" where
  "calculate_project_cost_claimed pf fs tasks =
     project_loop_claimed pf fs tasks \<lparr>total_cost = 0, total_hours = 0, breakdown = []\<rparr>"

subsection \<open>Model replies\<close>

text \<open>
  The text of \<open>s\<close> before the first occurrence of \<open>sep\<close> (all of \<open>s\<close> when there is none),
  and the text after that occurrence.
\<close>

fun before_first :: "string \<Rightarrow> string \<Rightarrow> string" where
  "before_first sep [] = []"
| "before_first sep (c # cs) = (if prefix sep (c # cs) then [] else c # before_first sep cs)"

fun after_first :: "string \<Rightarrow> string \<Rightarrow> string" where
  "after_first sep [] = []"
| "after_first sep (c # cs) =
     (if prefix sep (c # cs) then drop (length sep) (c # cs) else after_first sep cs)"

text \<open>
  The parser as the specification words it: without the separator the technical part is
  the trimmed reply and the financial part is empty; with it, the technical part is the
  text before the separator, a leading technical mark removed, trimmed, and the financial
  part is the text after the separator, trimmed.
\<close>

definition remove_prefix :: "string \<Rightarrow> string \<Rightarrow> string" where
  "remove_prefix p s = (if prefix p s then drop (length p) s else s)"

definition parse_model_response_claimed :: "string \<Rightarrow> analysis" where
  "parse_model_response_claimed response =
     (if \<not> contains FINANCIAL_MARK response
      then \<lparr>technical = py_strip response, financial = []\<rparr>
      else \<lparr>technical =
              py_strip (remove_prefix TECHNICAL_MARK (before_first FINANCIAL_MARK response)),
            financial = py_strip (after_first FINANCIAL_MARK response)\<rparr>)"

subsection \<open>Sections of a document\<close>






subsection \<open>Categories of sections\<close>

text \<open>
  The five categories in their order of priority, the keywords of each, and the category
  of a title: the first one, in that order, with a keyword occurring in the lower-cased
  title.
\<close>

datatype category = Overview | Technical | Financial | Timeline | Resource

fun keyword_set :: "category \<Rightarrow> string list" where
  "keyword_set Overview = [''overview'', ''description'', ''summary'']"
| "keyword_set Technical = [''technical'', ''technology'', ''architecture'', ''system'']"
| "keyword_set Financial = [''financial'', ''budget'', ''cost'', ''pricing'']"
| "keyword_set Timeline = [''timeline'', ''schedule'', ''deadline'', ''milestone'']"
| "keyword_set Resource = [''resource'', ''team'', ''staff'', ''personnel'']"

definition category_of :: "string \<Rightarrow> category option" where
  "category_of t =
     List.find (\<lambda>c. any_in (keyword_set c) (py_lower t))
       [Overview, Technical, Financial, Timeline, Resource]"

definition in_category :: "category \<Rightarrow> section_entry \<Rightarrow> bool" where
  "in_category c s \<longleftrightarrow> category_of (title s) = Some c"

text \<open>
  The questions of the sections of a category, in order; and the overview text: the
  joined questions of the last overview section, or the given text when there is none.
\<close>

definition questions_in :: "category \<Rightarrow> section_entry list \<Rightarrow> string list" where
  "questions_in c ss = concat (map questions (filter (in_category c) ss))"

definition overview_text :: "section_entry list \<Rightarrow> string \<Rightarrow> string" where
  "overview_text ss dflt =
     (case rev (filter (in_category Overview) ss) of
        [] \<Rightarrow> dflt
      | s # rest \<Rightarrow> py_join [CHR 0x0A] (questions s))"

subsection \<open>Services for the concrete instances\<close>


section \<open>Properties\<close>

subsection \<open>calculate\_project\_cost\<close>

text \<open>
  C1. On the task list of a Backend Engineer task of 10 hours and a Bogus task of 5 hours,
  the function does not return totals of 70 and 10: the unbound name in the first
  statement of the loop body makes it raise \<open>NameError\<close>, whatever the rate table is.
\<close>

theorem calculate_project_cost_raises_NameError:
  "calculate_project_cost
     [\<lparr>task_role = Some ''Backend Engineer'', task_hours = Some 10\<rparr>,
      \<lparr>task_role = Some ''Bogus'', task_hours = Some 5\<rparr>]
   = Inl (NameError ''tasksummary'')"
  by (simp add: calculate_project_cost_def)

text \<open>The same happens on every non-empty list; only the empty list gives a result.\<close>

lemma calculate_project_cost_nonempty:
  "tasks \<noteq> [] \<Longrightarrow> calculate_project_cost tasks = Inl (NameError ''tasksummary'')"
  by (cases tasks) (simp_all add: calculate_project_cost_def)

lemma calculate_project_cost_empty:
  "calculate_project_cost [] = Inr \<lparr>total_cost = 0, total_hours = 0, breakdown = []\<rparr>"
  by (simp add: calculate_project_cost_def)

text \<open>
  With the loop variable in place of the unbound name, the same list gives the totals of
  the specification.
\<close>

lemma calculate_project_cost_claimed_example:
  "calculate_project_cost_claimed digits_float Missing
     [\<lparr>task_role = Some ''Backend Engineer'', task_hours = Some 10\<rparr>,
      \<lparr>task_role = Some ''Bogus'', task_hours = Some 5\<rparr>]
   = \<lparr>total_cost = 70, total_hours = 10,
      breakdown = [\<lparr>error = None, role = ''Backend Engineer'', hours = 10, rate = 7,
                    total_cost = 70\<rparr>]\<rparr>"
  by code_simp

subsection \<open>load\_hourly\_rates\<close>








subsection \<open>calculate\_task\_cost\<close>

text \<open>
  C7. For a role that is not a key of the current rate table, the result carries an error
  message, a rate and a total cost of 0, and the role and the hours as given. The function
  is total: the loader catches every exception of reading the rate file, and nothing
  else in the function can raise.
\<close>

theorem calculate_task_cost_unknown_role:
  "map_of (load_hourly_rates pf fs) r = None \<Longrightarrow>
   calculate_task_cost pf fs r h =
     \<lparr>error = Some (''Role '' @ [CHR 0x27] @ r @ [CHR 0x27] @ '' not found in hourly rates''),
      role = r, hours = h, rate = 0, total_cost = 0\<rparr>"
  by (simp add: calculate_task_cost_def)

theorem calculate_task_cost_unknown_role_witness:
  "map_of (load_hourly_rates digits_float Missing) ''Nonexistent Role'' = None \<and>
   error (calculate_task_cost digits_float Missing ''Nonexistent Role'' 5) \<noteq> None \<and>
   cost_info.total_cost (calculate_task_cost digits_float Missing ''Nonexistent Role'' 5) = 0"
proof -
  have h: "map_of (load_hourly_rates digits_float Missing) ''Nonexistent Role'' = None"
    by (simp add: load_hourly_rates_def ENGINEERING_ROLES_def)
  show ?thesis
    using h calculate_task_cost_unknown_role [OF h, of 5] by simp
qed



subsection \<open>estimate\_hours\_from\_description\<close>

lemma role_type_cases:
  "role_type r = ''frontend'' \<or> role_type r = ''backend'' \<or> role_type r = ''database'' \<or>
   role_type r = ''cloud'' \<or> role_type r = ''testing''"
  by (simp add: role_type_def Let_def)

lemma complexity_cases:
  "complexity d = ''simple'' \<or> complexity d = ''medium'' \<or> complexity d = ''complex''"
  by (simp add: complexity_def Let_def)

lemma tiers_lookup:
  "map_of task_estimates ''frontend'' = Some [(''simple'', 8), (''medium'', 16), (''complex'', 32)]"
  "map_of task_estimates ''backend'' = Some [(''simple'', 12), (''medium'', 24), (''complex'', 48)]"
  "map_of task_estimates ''database'' = Some [(''simple'', 16), (''medium'', 32), (''complex'', 64)]"
  "map_of task_estimates ''cloud'' = Some [(''simple'', 20), (''medium'', 40), (''complex'', 80)]"
  "map_of task_estimates ''testing'' = Some [(''simple'', 8), (''medium'', 16), (''complex'', 24)]"
  by (simp_all add: task_estimates_def)

lemma tier_lookup:
  "map_of [(''simple'', a), (''medium'', b), (''complex'', c)] ''simple'' = Some a"
  "map_of [(''simple'', a), (''medium'', b), (''complex'', c)] ''medium'' = Some b"
  "map_of [(''simple'', a), (''medium'', b), (''complex'', c)] ''complex'' = Some c"
  by simp_all

lemma estimate_hit:
  "\<exists>tiers v. map_of task_estimates (role_type r) = Some tiers \<and>
      map_of tiers (complexity d) = Some v \<and>
      v \<in> {8, 12, 16, 20, 24, 32, 40, 48, 64, 80} \<and>
      estimate_hours_from_description d r = v"
  using role_type_cases[of r] complexity_cases[of d]
  by (elim disjE)
     (simp_all only: estimate_hours_from_description_def dict_get_def tiers_lookup tier_lookup
        option.simps, simp_all)

text \<open>
  C10. The estimate is total and is always one of 8, 12, 16, 20, 24, 32, 40, 48, 64 and
  80; both dictionary lookups always hit, the category being one of the five keys of the
  table and the tier one of the three keys of every category, so the default 16 of the
  last \<open>get\<close> is never used; and a description with both a simple-tier and a complex-tier
  keyword is of the simple tier.
\<close>

theorem estimate_hours_from_description_table:
  "estimate_hours_from_description d r \<in> {8, 12, 16, 20, 24, 32, 40, 48, 64, 80} \<and>
   (\<exists>tiers v. map_of task_estimates (role_type r) = Some tiers \<and>
      map_of tiers (complexity d) = Some v \<and> estimate_hours_from_description d r = v) \<and>
   (any_in [''simple'', ''basic'', ''quick'', ''minor''] (py_lower d) \<and>
    any_in [''complex'', ''advanced'', ''sophisticated'', ''comprehensive''] (py_lower d) \<longrightarrow>
      complexity d = ''simple'' \<and>
      estimate_hours_from_description d r =
        dict_get (dict_get task_estimates (role_type r) []) ''simple'' 16)"
proof -
  obtain tiers v where hit:
    "map_of task_estimates (role_type r) = Some tiers" "map_of tiers (complexity d) = Some v"
    "v \<in> {8, 12, 16, 20, 24, 32, 40, 48, 64, 80}" "estimate_hours_from_description d r = v"
    using estimate_hit[of r d] by blast
  have "any_in [''simple'', ''basic'', ''quick'', ''minor''] (py_lower d) \<Longrightarrow>
      complexity d = ''simple''"
    by (simp add: complexity_def Let_def)
  moreover have "complexity d = ''simple'' \<Longrightarrow>
      estimate_hours_from_description d r =
        dict_get (dict_get task_estimates (role_type r) []) ''simple'' 16"
    by (simp only: estimate_hours_from_description_def)
  ultimately show ?thesis using hit by blast
qed

theorem estimate_hours_from_description_table_witness:
  "any_in [''simple'', ''basic'', ''quick'', ''minor''] (py_lower ''Quick but COMPLEX'') \<and>
   any_in [''complex'', ''advanced'', ''sophisticated'', ''comprehensive'']
     (py_lower ''Quick but COMPLEX'') \<and>
   complexity ''Quick but COMPLEX'' = ''simple'' \<and>
   estimate_hours_from_description ''Quick but COMPLEX'' ''Cloud Engineer'' = 20"
proof -
  have h1: "any_in [''simple'', ''basic'', ''quick'', ''minor''] (py_lower ''Quick but COMPLEX'')"
    by code_simp
  have h2: "any_in [''complex'', ''advanced'', ''sophisticated'', ''comprehensive'']
     (py_lower ''Quick but COMPLEX'')"
    by code_simp
  have h3: "dict_get (dict_get task_estimates (role_type ''Cloud Engineer'') []) ''simple'' 16
     = (20 :: pynum)"
    by code_simp
  show ?thesis
    using h1 h2 h3
      estimate_hours_from_description_table [of "''Quick but COMPLEX''" "''Cloud Engineer''"]
    by simp
qed

subsection \<open>Parsing a model reply\<close>

lemma split_on_absent: "\<not> contains sep s \<Longrightarrow> split_on sep cur s = [cur @ s]"
  by (induction s arbitrary: cur) auto

lemma split_on_present:
  "sep \<noteq> [] \<Longrightarrow> contains sep s \<Longrightarrow>
   split_on sep cur s = (cur @ before_first sep s) # split_on sep [] (after_first sep s)"
  by (induction s arbitrary: cur) auto

lemma before_first_absent: "\<not> contains sep s \<Longrightarrow> before_first sep s = s"
  by (induction s) auto

lemma split_on_hd: "sep \<noteq> [] \<Longrightarrow> hd (split_on sep [] s) = before_first sep s"
  by (cases "contains sep s")
     (simp_all add: split_on_present split_on_absent before_first_absent)

lemma split_on_nonempty: "split_on sep cur s \<noteq> []"
  by (induction sep cur s rule: split_on.induct) auto

lemma first_decomposition:
  "contains sep s \<Longrightarrow> sep \<noteq> [] \<Longrightarrow> s = before_first sep s @ sep @ after_first sep s"
  by (induction s) (auto simp: prefix_def)

lemma contains_length: "contains sub s \<Longrightarrow> length sub \<le> length s"
  by (induction s) (auto dest: prefix_length_le)

text \<open>The occurrence that \<open>before_first\<close> stops at is the first one.\<close>

lemma before_first_minimal:
  "sep \<noteq> [] \<Longrightarrow> contains sep s \<Longrightarrow> \<not> contains sep (before_first sep s @ butlast sep)"
proof (induction s)
  case Nil
  then show ?case by simp
next
  case (Cons c cs)
  have short: "\<not> contains sep (butlast sep)"
    using contains_length[of sep "butlast sep"] Cons.prems(1)
    by (auto simp: length_greater_0_conv[symmetric] simp del: length_greater_0_conv)
  show ?case
  proof (cases "prefix sep (c # cs)")
    case True
    then show ?thesis using short by simp
  next
    case False
    with Cons.prems have occ: "contains sep cs" by simp
    have ih: "\<not> contains sep (before_first sep cs @ butlast sep)"
      using Cons.IH[OF Cons.prems(1) occ] .
    have "cs = before_first sep cs @ sep @ after_first sep cs"
      using first_decomposition[OF occ Cons.prems(1)] .
    then have "c # cs =
        (c # before_first sep cs @ butlast sep) @ ([last sep] @ after_first sep cs)"
      using append_butlast_last_id[OF Cons.prems(1)] by (metis append.assoc append_Cons)
    then have "prefix (c # before_first sep cs @ butlast sep) (c # cs)"
      by (metis prefixI)
    then have "\<not> prefix sep (c # before_first sep cs @ butlast sep)"
      using False prefix_order.trans by blast
    with ih False show ?thesis by simp
  qed
qed

lemma FINANCIAL_MARK_nonempty: "FINANCIAL_MARK \<noteq> []"
  by (simp add: FINANCIAL_MARK_def)

text \<open>
  C3, as amended. For a reply without the separator the financial part is empty and the
  technical part is the reply up to surrounding whitespace. For a reply with the separator,
  the reply is cut at the first occurrence of the separator; the technical part is the
  text before it with every occurrence of the technical mark removed, then trimmed, and
  the financial part is the text between that occurrence and the next occurrence of the
  separator (or the end of the reply), trimmed.
\<close>

theorem parse_model_response_parts:
  "(\<not> contains FINANCIAL_MARK r \<longrightarrow>
      financial (parse_model_response r) = [] \<and>
      py_strip (technical (parse_model_response r)) = py_strip r) \<and>
   (contains FINANCIAL_MARK r \<longrightarrow>
      r = before_first FINANCIAL_MARK r @ FINANCIAL_MARK @ after_first FINANCIAL_MARK r \<and>
      \<not> contains FINANCIAL_MARK (before_first FINANCIAL_MARK r @ butlast FINANCIAL_MARK) \<and>
      technical (parse_model_response r) =
        py_strip (str_replace TECHNICAL_MARK [] (before_first FINANCIAL_MARK r)) \<and>
      financial (parse_model_response r) =
        py_strip (before_first FINANCIAL_MARK (after_first FINANCIAL_MARK r)))"
proof (cases "contains FINANCIAL_MARK r")
  case False
  then show ?thesis
    by (simp add: parse_model_response_def split_on_absent)
next
  case True
  have parts: "split_on FINANCIAL_MARK [] r =
      before_first FINANCIAL_MARK r # split_on FINANCIAL_MARK [] (after_first FINANCIAL_MARK r)"
    using split_on_present[OF FINANCIAL_MARK_nonempty True, of "[]"] by simp
  obtain x xs where rest: "split_on FINANCIAL_MARK [] (after_first FINANCIAL_MARK r) = x # xs"
    using split_on_nonempty
    by (cases "split_on FINANCIAL_MARK [] (after_first FINANCIAL_MARK r)") auto
  have x: "x = before_first FINANCIAL_MARK (after_first FINANCIAL_MARK r)"
    using split_on_hd[OF FINANCIAL_MARK_nonempty, of "after_first FINANCIAL_MARK r"] rest
    by simp
  show ?thesis
    using True first_decomposition[OF True FINANCIAL_MARK_nonempty]
      before_first_minimal[OF FINANCIAL_MARK_nonempty True] parts rest x
    by (simp add: parse_model_response_def)
qed

theorem parse_model_response_parts_witness:
  "\<not> contains FINANCIAL_MARK '' hello '' \<and>
   financial (parse_model_response '' hello '') = [] \<and>
   contains FINANCIAL_MARK ''a FINANCIAL ANALYSIS: b FINANCIAL ANALYSIS: c'' \<and>
   financial (parse_model_response ''a FINANCIAL ANALYSIS: b FINANCIAL ANALYSIS: c'') = ''b''"
proof -
  have h1: "\<not> contains FINANCIAL_MARK '' hello ''"
    by code_simp
  have h2: "contains FINANCIAL_MARK ''a FINANCIAL ANALYSIS: b FINANCIAL ANALYSIS: c''"
    by code_simp
  have h3: "py_strip (before_first FINANCIAL_MARK
       (after_first FINANCIAL_MARK ''a FINANCIAL ANALYSIS: b FINANCIAL ANALYSIS: c'')) = ''b''"
    by code_simp
  show ?thesis
    using h1 h2 h3 parse_model_response_parts [of "'' hello ''"]
      parse_model_response_parts [of "''a FINANCIAL ANALYSIS: b FINANCIAL ANALYSIS: c''"]
    by simp
qed

text \<open>
  C3 as stated fails. A reply without the separator comes back untrimmed. In a reply with
  the separator, a technical mark that is not at the start is removed as well, and the
  financial part ends at the second separator.
\<close>

theorem parse_model_response_differs_from_claim:
  "\<not> contains FINANCIAL_MARK '' hello '' \<and>
   parse_model_response '' hello '' = \<lparr>technical = '' hello '', financial = []\<rparr> \<and>
   parse_model_response_claimed '' hello '' = \<lparr>technical = ''hello'', financial = []\<rparr> \<and>
   parse_model_response ''x TECHNICAL ANALYSIS: y FINANCIAL ANALYSIS: b FINANCIAL ANALYSIS: c''
     = \<lparr>technical = ''x  y'', financial = ''b''\<rparr> \<and>
   parse_model_response_claimed
       ''x TECHNICAL ANALYSIS: y FINANCIAL ANALYSIS: b FINANCIAL ANALYSIS: c''
     = \<lparr>technical = ''x TECHNICAL ANALYSIS: y'', financial = ''b FINANCIAL ANALYSIS: c''\<rparr>"
  by code_simp

subsection \<open>Writing a report and reading it back\<close>




subsection \<open>extract\_questioner\_content\<close>













text \<open>
  The example of the specification: two headings, one question under the first and two
  under the second.
\<close>

lemma extract_questioner_content_two_headings:
  "extract_questioner_content
       (DocFile
         [\<lparr>style_name = ''Heading 1'', runs = [], para_text = ''H1''\<rparr>,
          \<lparr>style_name = ''Normal'', runs = [], para_text = ''q1''\<rparr>,
          \<lparr>style_name = ''Normal'', runs = [\<lparr>run_text = ''H2'', bold = Some True\<rparr>],
           para_text = ''H2''\<rparr>,
          \<lparr>style_name = ''Normal'', runs = [], para_text = ''q2''\<rparr>,
          \<lparr>style_name = ''Normal'', runs = [], para_text = ''q3''\<rparr>])
     = Inr \<lparr>sections = [\<lparr>title = ''H1'', questions = [''q1'']\<rparr>,
                        \<lparr>title = ''H2'', questions = [''q2'', ''q3'']\<rparr>],
            raw_text = ''H1'' @ [CHR 0x0A] @ ''q1'' @ [CHR 0x0A] @ ''H2'' @ [CHR 0x0A]
                       @ ''q2'' @ [CHR 0x0A] @ ''q3'' @ [CHR 0x0A],
            preamble = None\<rparr>"
  by code_simp

subsection \<open>extract\_project\_requirements\<close>

lemma categorize_step:
  "category_of (title s) = None \<Longrightarrow> categorize (s # ss) req = categorize ss req"
  "category_of (title s) = Some Overview \<Longrightarrow>
     categorize (s # ss) req =
       categorize ss (req\<lparr>project_overview := py_join [CHR 0x0A] (questions s)\<rparr>)"
  "category_of (title s) = Some Technical \<Longrightarrow>
     categorize (s # ss) req =
       categorize ss (req\<lparr>technical_requirements := technical_requirements req @ questions s\<rparr>)"
  "category_of (title s) = Some Financial \<Longrightarrow>
     categorize (s # ss) req =
       categorize ss (req\<lparr>financial_requirements := financial_requirements req @ questions s\<rparr>)"
  "category_of (title s) = Some Timeline \<Longrightarrow>
     categorize (s # ss) req =
       categorize ss (req\<lparr>timeline_requirements := timeline_requirements req @ questions s\<rparr>)"
  "category_of (title s) = Some Resource \<Longrightarrow>
     categorize (s # ss) req =
       categorize ss (req\<lparr>resource_requirements := resource_requirements req @ questions s\<rparr>)"
  by (simp_all add: category_of_def Let_def split: if_splits)

lemma categorize_eq:
  "categorize ss req =
     \<lparr>project_overview = overview_text ss (project_overview req),
      technical_requirements = technical_requirements req @ questions_in Technical ss,
      financial_requirements = financial_requirements req @ questions_in Financial ss,
      timeline_requirements = timeline_requirements req @ questions_in Timeline ss,
      resource_requirements = resource_requirements req @ questions_in Resource ss\<rparr>"
proof (induction ss arbitrary: req)
  case Nil
  show ?case by (simp add: overview_text_def questions_in_def)
next
  case (Cons s ss)
  have ov: "overview_text (s # ss) d =
      overview_text ss (if in_category Overview s then py_join [CHR 0x0A] (questions s) else d)" for d
    by (simp add: overview_text_def split: list.splits)
  show ?case
  proof (cases "category_of (title s)")
    case None
    then show ?thesis
      by (simp add: categorize_step Cons.IH ov in_category_def questions_in_def
            del: categorize.simps)
  next
    case (Some c)
    then show ?thesis
      by (cases c)
         (simp_all add: categorize_step Cons.IH ov in_category_def questions_in_def
            del: categorize.simps)
  qed
qed

text \<open>
  C6. Every section has at most one category, the first of overview, technical,
  financial, timeline and resource with a keyword in its lower-cased title. The four
  list buckets hold the question lists of their sections appended in order, the overview
  is the joined questions of the last overview section (each one replaces the text
  before), and a section of no category changes nothing and raises no error.
\<close>

theorem categorize_buckets:
  "categorize ss empty_requirements =
     \<lparr>project_overview = overview_text ss [],
      technical_requirements = questions_in Technical ss,
      financial_requirements = questions_in Financial ss,
      timeline_requirements = questions_in Timeline ss,
      resource_requirements = questions_in Resource ss\<rparr> \<and>
   (category_of (title s) = None \<longrightarrow> categorize (s # ss) req = categorize ss req)"
proof -
  have "categorize ss empty_requirements =
     \<lparr>project_overview = overview_text ss [],
      technical_requirements = questions_in Technical ss,
      financial_requirements = questions_in Financial ss,
      timeline_requirements = questions_in Timeline ss,
      resource_requirements = questions_in Resource ss\<rparr>"
    by (subst categorize_eq) (simp add: empty_requirements_def)
  then show ?thesis
    by (simp add: categorize_step(1) del: categorize.simps)
qed

theorem categorize_buckets_witness:
  "category_of (title \<lparr>title = ''Misc'', questions = [''q0'']\<rparr>) = None \<and>
   categorize
     [\<lparr>title = ''Misc'', questions = [''q0'']\<rparr>,
      \<lparr>title = ''Budget and SYSTEM'', questions = [''q1'', ''q2'']\<rparr>]
     empty_requirements =
   categorize [\<lparr>title = ''Budget and SYSTEM'', questions = [''q1'', ''q2'']\<rparr>]
     empty_requirements \<and>
   categorize [\<lparr>title = ''Budget and SYSTEM'', questions = [''q1'', ''q2'']\<rparr>]
     empty_requirements =
     \<lparr>project_overview = [], technical_requirements = [''q1'', ''q2''],
      financial_requirements = [], timeline_requirements = [], resource_requirements = []\<rparr>"
proof -
  have h1: "category_of (title \<lparr>title = ''Misc'', questions = [''q0'']\<rparr>) = None"
    by code_simp
  have h2: "overview_text [\<lparr>title = ''Budget and SYSTEM'', questions = [''q1'', ''q2'']\<rparr>] [] = []"
    by code_simp
  have h3: "questions_in Technical [\<lparr>title = ''Budget and SYSTEM'', questions = [''q1'', ''q2'']\<rparr>]
      = [''q1'', ''q2'']"
    by code_simp
  have h4: "questions_in Financial [\<lparr>title = ''Budget and SYSTEM'', questions = [''q1'', ''q2'']\<rparr>]
      = []"
    by code_simp
  have h5: "questions_in Timeline [\<lparr>title = ''Budget and SYSTEM'', questions = [''q1'', ''q2'']\<rparr>]
      = []"
    by code_simp
  have h6: "questions_in Resource [\<lparr>title = ''Budget and SYSTEM'', questions = [''q1'', ''q2'']\<rparr>]
      = []"
    by code_simp
  show ?thesis
    using h1 h2 h3 h4 h5 h6
      categorize_buckets [of "[\<lparr>title = ''Budget and SYSTEM'', questions = [''q1'', ''q2'']\<rparr>]"
        "\<lparr>title = ''Misc'', questions = [''q0'']\<rparr>" empty_requirements]
    by (simp del: categorize.simps)
qed

subsection \<open>generate\_reports\<close>






end
